theory Spec2Isabelle
  imports
    Complex_Main
    "HOL-Library.Sublist"
    "HOL-Library.Char_ord"
    "HOL-Library.List_Lexorder"
    "HOL-Library.Product_Lexorder"
begin

section \<open>Values and errors\<close>

text \<open>
  A cell of an object column of the data frame returned by the store: a Python
  \<^verbatim>\<open>str\<close>, or \<^verbatim>\<open>None\<close> for an SQL NULL.
\<close>

datatype pyval = PyNone | PyStr string

text \<open>
  The exceptions the code can raise: \<^verbatim>\<open>AttributeError\<close> from a method call on
  \<^verbatim>\<open>None\<close>, \<^verbatim>\<open>ValueError\<close> from a pivot with duplicate entries, and the error
  raised by \<^verbatim>\<open>duckdb.connect\<close> or \<^verbatim>\<open>con.execute\<close>, which the specification names
  DataUnavailable.
\<close>

datatype error = AttributeError | ValueError | DataUnavailable

section \<open>The classification functions of \<^verbatim>\<open>process_location_data\<close>\<close>

text \<open>
  \<^verbatim>\<open>group_buildings\<close>: the comparison \<^verbatim>\<open>==\<close> is defined on every value, the method
  \<^verbatim>\<open>startswith\<close> only on strings.
\<close>

definition group_buildings :: "pyval \<Rightarrow> error + string" where
  "group_buildings dwelling_type =
     (if dwelling_type = PyStr ''House - single occupancy'' then Inr ''House''
      else case dwelling_type of
             PyNone \<Rightarrow> Inl AttributeError
           | PyStr s \<Rightarrow>
               if prefix ''Purpose Built'' s then Inr ''Purpose Built Flats''
               else Inr ''Other'')"

text \<open>
  \<^verbatim>\<open>group_locations\<close>: only \<^verbatim>\<open>==\<close> and \<^verbatim>\<open>in\<close> on tuples of strings, both defined
  on every value.
\<close>

definition group_locations :: "pyval \<Rightarrow> string" where
  "group_locations location =
     (if location = PyStr ''Kitchen'' then ''Kitchen''
      else if location \<in> set [PyStr ''Living Room'', PyStr ''Bedroom/ Bedsitting Room'']
        then ''Living/Bedroom''
      else if location \<in> set [PyStr ''Refuse Store'',
                               PyStr ''Corridor/ Hall/ Open Plan Area/ Reception Area'',
                               PyStr ''Stairs/ Under stairs (enclosed area)'']
        then ''Communal/Escape Routes''
      else ''Other Room/External'')"

section \<open>Floating-point cells\<close>

text \<open>
  A cell of a float column. Finite doubles are modelled by the rationals they stand for:
  the model computes quotients and roundings exactly. \<open>NaN\<close> is the missing value of
  pandas; \<open>PosInf\<close> is the quotient of a positive count by zero (pandas divides without
  raising).
\<close>

datatype pyfloat = Fin rat | PosInf | NaN

text \<open>Rounding to the nearest integer, ties to the even one, as \<^verbatim>\<open>numpy.rint\<close> does.\<close>

definition rint :: "rat \<Rightarrow> int" where
  "rint x =
     (let f = \<lfloor>x\<rfloor>; d = x - of_int f
      in if d < 1 / 2 then f
         else if 1 / 2 < d then f + 1
         else if even f then f else f + 1)"

text \<open>
  \<^verbatim>\<open>Series.round(1)\<close>: numpy scales by ten, rounds to the nearest integer and scales
  back; non-finite values are left as they are.
\<close>

definition round1 :: "rat \<Rightarrow> rat" where
  "round1 x = of_int (rint (x * 10)) / 10"

definition series_round1 :: "pyfloat \<Rightarrow> pyfloat" where
  "series_round1 x = (case x of Fin q \<Rightarrow> Fin (round1 q) | PosInf \<Rightarrow> PosInf | NaN \<Rightarrow> NaN)"

text \<open>
  The true division of an integer column by the looked-up group total: a missing total
  is \<open>NaN\<close> and so is the quotient; a zero total gives \<open>NaN\<close> for \<open>0 / 0\<close> and
  infinity otherwise.
\<close>

definition true_div :: "nat \<Rightarrow> nat option \<Rightarrow> pyfloat" where
  "true_div a b =
     (case b of
        None \<Rightarrow> NaN
      | Some t \<Rightarrow>
          if t \<noteq> 0 then Fin (of_nat a / of_nat t)
          else if a = 0 then NaN else PosInf)"

section \<open>The data frames of \<^verbatim>\<open>process_location_data\<close>\<close>

text \<open>
  A row of the frame returned by the fire-start-locations query. The count is the
  result of an SQL \<^verbatim>\<open>COUNT\<close>, a non-negative integer.
\<close>

record raw_row =
  dwelling_type :: pyval
  fire_start_location :: pyval
  number_of_incidents :: nat

text \<open>The same row after the two \<^verbatim>\<open>apply\<close> calls have added their columns.\<close>

record classified_row = raw_row +
  building_group :: string
  location_group :: string

text \<open>
  A row of \<^verbatim>\<open>df_grouped_counts\<close>: the columns \<^verbatim>\<open>building_group\<close>,
  \<^verbatim>\<open>location_group\<close> and \<^verbatim>\<open>number_of_incidents\<close> of the group-by (prefixed
  \<open>gc\<close> here), then \<^verbatim>\<open>group_total\<close> and \<^verbatim>\<open>percentage\<close>.
\<close>

record count_row =
  gc_building_group :: string
  gc_location_group :: string
  gc_number_of_incidents :: nat

record pct_row = count_row +
  group_total :: "nat option"
  percentage :: pyfloat

text \<open>
  The pivoted frame, column by column as pandas stores it: the index of location
  groups, and for each building group the column of its cells along the index.
\<close>

record pivot_table =
  pivot_index :: "string list"
  pivot_columns :: "(string \<times> pyfloat list) list"

text \<open>A row of the long-form frame for the chart (columns prefixed \<open>chart\<close>).\<close>

record chart_row =
  chart_location_group :: string
  chart_building_group :: string
  chart_percentage :: pyfloat

section \<open>The steps of \<^verbatim>\<open>process_location_data\<close>\<close>

text \<open>
  \<^verbatim>\<open>Series.apply\<close> calls the function on the cells in order; the first exception
  ends the call.
\<close>

fun series_apply :: "('a \<Rightarrow> error + 'b) \<Rightarrow> 'a list \<Rightarrow> error + 'b list" where
  "series_apply f [] = Inr []"
| "series_apply f (x # xs) =
     (case f x of
        Inl e \<Rightarrow> Inl e
      | Inr y \<Rightarrow> (case series_apply f xs of Inl e \<Rightarrow> Inl e | Inr ys \<Rightarrow> Inr (y # ys)))"

text \<open>The two column assignments: the building groups first, then the location groups.\<close>

definition add_group_columns :: "raw_row list \<Rightarrow> error + classified_row list" where
  "add_group_columns df_locations_raw =
     (case series_apply group_buildings (map dwelling_type df_locations_raw) of
        Inl e \<Rightarrow> Inl e
      | Inr bgs \<Rightarrow>
          let lgs = map group_locations (map fire_start_location df_locations_raw)
          in Inr (map (\<lambda>(r, bg, lg).
                        \<lparr>dwelling_type = dwelling_type r,
                         fire_start_location = fire_start_location r,
                         number_of_incidents = number_of_incidents r,
                         building_group = bg, location_group = lg\<rparr>)
                      (zip df_locations_raw (zip bgs lgs))))"

text \<open>The \<^verbatim>\<open>isin\<close> filter.\<close>

definition df_groups :: "classified_row list \<Rightarrow> classified_row list" where
  "df_groups df = filter (\<lambda>r. building_group r \<in> set [''House'', ''Purpose Built Flats'']) df"

text \<open>
  \<^verbatim>\<open>groupby(['building_group', 'location_group'])['number_of_incidents'].sum()\<close>
  with \<^verbatim>\<open>reset_index\<close>: one row per key that occurs, keys in ascending order, the sum
  of the counts of the rows with that key.
\<close>

definition df_grouped_counts :: "classified_row list \<Rightarrow> count_row list" where
  "df_grouped_counts df =
     map (\<lambda>(bg, lg).
            \<lparr>gc_building_group = bg, gc_location_group = lg,
             gc_number_of_incidents =
               sum_list (map number_of_incidents
                 (filter (\<lambda>r. building_group r = bg \<and> location_group r = lg) df))\<rparr>)
         (sort (remdups (map (\<lambda>r. (building_group r, location_group r)) df)))"

text \<open>
  \<^verbatim>\<open>groupby('building_group')['number_of_incidents'].sum()\<close>: the series of totals,
  indexed by building group.
\<close>

definition group_totals :: "count_row list \<Rightarrow> (string \<times> nat) list" where
  "group_totals df =
     map (\<lambda>bg. (bg, sum_list (map gc_number_of_incidents
                       (filter (\<lambda>r. gc_building_group r = bg) df))))
         (sort (remdups (map gc_building_group df)))"

text \<open>
  The two new columns: \<^verbatim>\<open>group_total\<close> looks each building group up in the series
  of totals, \<^verbatim>\<open>percentage\<close> is \<^verbatim>\<open>(100 * number_of_incidents / group_total).round(1)\<close>.
\<close>

definition add_percentage :: "count_row list \<Rightarrow> pct_row list" where
  "add_percentage df =
     map (\<lambda>r.
            let total = map_of (group_totals df) (gc_building_group r)
            in \<lparr>gc_building_group = gc_building_group r,
                gc_location_group = gc_location_group r,
                gc_number_of_incidents = gc_number_of_incidents r,
                group_total = total,
                percentage = series_round1 (true_div (100 * gc_number_of_incidents r) total)\<rparr>)
         df"

text \<open>
  \<^verbatim>\<open>pivot(index='location_group', columns='building_group', values='percentage')\<close>:
  pandas raises \<^verbatim>\<open>ValueError\<close> when two rows have the same index and column;
  otherwise the index and the columns are the labels that occur, in ascending order,
  and a cell with no row is \<open>NaN\<close>.
\<close>

definition pivot :: "pct_row list \<Rightarrow> error + pivot_table" where
  "pivot df =
     (if \<not> distinct (map (\<lambda>r. (gc_location_group r, gc_building_group r)) df)
      then Inl ValueError
      else
        let idx = sort (remdups (map gc_location_group df));
            cols = sort (remdups (map gc_building_group df))
        in Inr \<lparr>pivot_index = idx,
                pivot_columns =
                  map (\<lambda>c. (c, map (\<lambda>i.
                                case find (\<lambda>r. gc_location_group r = i \<and> gc_building_group r = c) df of
                                  None \<Rightarrow> NaN
                                | Some r \<Rightarrow> percentage r) idx))
                      cols\<rparr>)"

text \<open>\<^verbatim>\<open>fillna(0)\<close>: every \<open>NaN\<close> cell becomes 0.\<close>

definition fillna :: "rat \<Rightarrow> pivot_table \<Rightarrow> pivot_table" where
  "fillna v pv =
     pv\<lparr>pivot_columns :=
          map (\<lambda>(c, cells). (c, map (\<lambda>x. case x of NaN \<Rightarrow> Fin v | _ \<Rightarrow> x) cells))
              (pivot_columns pv)\<rparr>"

text \<open>
  \<^verbatim>\<open>drop(label, errors='ignore')\<close>: the rows with that index label are removed, from
  the index and from every column; with no such row nothing is raised.
\<close>

definition drop_label :: "string \<Rightarrow> pivot_table \<Rightarrow> pivot_table" where
  "drop_label label pv =
     \<lparr>pivot_index = filter (\<lambda>i. i \<noteq> label) (pivot_index pv),
      pivot_columns =
        map (\<lambda>(c, cells).
               (c, map snd (filter (\<lambda>(i, x). i \<noteq> label) (zip (pivot_index pv) cells))))
            (pivot_columns pv)\<rparr>"

text \<open>
  \<^verbatim>\<open>reset_index().melt(id_vars='location_group', ...)\<close>: the columns one after the
  other, each with one row per index label.
\<close>

definition melt :: "pivot_table \<Rightarrow> chart_row list" where
  "melt pv =
     concat (map (\<lambda>(c, cells).
               map (\<lambda>(i, x).
                      \<lparr>chart_location_group = i, chart_building_group = c,
                       chart_percentage = x\<rparr>)
                   (zip (pivot_index pv) cells))
             (pivot_columns pv))"

text \<open>The frame \<^verbatim>\<open>df_grouped_counts\<close> with its percentages, from the raw frame.\<close>

definition normalized_counts :: "raw_row list \<Rightarrow> error + pct_row list" where
  "normalized_counts df_locations_raw =
     (case add_group_columns df_locations_raw of
        Inl e \<Rightarrow> Inl e
      | Inr df \<Rightarrow> Inr (add_percentage (df_grouped_counts (df_groups df))))"

text \<open>The pivoted frame before the drop.\<close>

definition pivot_filled :: "raw_row list \<Rightarrow> error + pivot_table" where
  "pivot_filled df_locations_raw =
     (case normalized_counts df_locations_raw of
        Inl e \<Rightarrow> Inl e
      | Inr df \<Rightarrow> (case pivot df of Inl e \<Rightarrow> Inl e | Inr pv \<Rightarrow> Inr (fillna 0 pv)))"

text \<open>
  The body of \<^verbatim>\<open>process_location_data\<close> after the frame is loaded: it returns the
  long-form frame and the pivoted frame.
\<close>

definition process_location_frame :: "raw_row list \<Rightarrow> error + chart_row list \<times> pivot_table" where
  "process_location_frame df_locations_raw =
     (case pivot_filled df_locations_raw of
        Inl e \<Rightarrow> Inl e
      | Inr pv \<Rightarrow>
          let df_locations_pivot_pct = drop_label ''Other Room/External'' pv;
              df_locations_chart_data = melt df_locations_pivot_pct
          in Inr (df_locations_chart_data, df_locations_pivot_pct))"

section \<open>The store and \<^verbatim>\<open>load_data\<close>\<close>

text \<open>
  The store as \<^verbatim>\<open>load_data\<close> sees it, for a fixed snapshot of the database file:
  whether \<^verbatim>\<open>duckdb.connect\<close> succeeds, and the frame that
  \<^verbatim>\<open>con.execute(query).df()\<close> returns for a query text, \<open>None\<close> when it raises.
\<close>

record 'tbl store =
  can_connect :: bool
  run_query :: "string \<Rightarrow> 'tbl option"

text \<open>What a call does to the store, in order.\<close>

datatype event = Connected | ConnectFailed | Executed string | ExecuteFailed string | Closed

text \<open>
  The state of the process: the memo of \<^verbatim>\<open>@st.cache_data\<close> on \<^verbatim>\<open>load_data\<close>,
  keyed by the query text, and the trace of the events on the store so far.
\<close>

record 'tbl gateway =
  cache :: "string \<rightharpoonup> 'tbl"
  trace :: "event list"

text \<open>
  The body of \<^verbatim>\<open>load_data\<close>. When \<^verbatim>\<open>duckdb.connect\<close> raises there is no
  connection; inside the \<^verbatim>\<open>with\<close> block the connection is closed on leaving it,
  by the return as by an exception of \<^verbatim>\<open>con.execute(query).df()\<close>.
\<close>

definition load_data_body ::
  "'tbl store \<Rightarrow> string \<Rightarrow> event list \<Rightarrow> (error + 'tbl) \<times> event list" where
  "load_data_body store query tr =
     (if \<not> can_connect store then (Inl DataUnavailable, tr @ [ConnectFailed])
      else case run_query store query of
             None \<Rightarrow> (Inl DataUnavailable, tr @ [Connected, ExecuteFailed query, Closed])
           | Some df \<Rightarrow> (Inr df, tr @ [Connected, Executed query, Closed]))"

text \<open>
  \<^verbatim>\<open>load_data\<close> with its decorator \<^verbatim>\<open>@st.cache_data\<close>: a query text that is in
  the memo is answered from it and the body does not run; otherwise the body runs, a
  frame it returns is stored under the query text, and an exception it raises goes to
  the caller with nothing stored.
\<close>

definition load_data ::
  "'tbl store \<Rightarrow> string \<Rightarrow> 'tbl gateway \<Rightarrow> (error + 'tbl) \<times> 'tbl gateway" where
  "load_data store query g =
     (case cache g query of
        Some df \<Rightarrow> (Inr df, g)
      | None \<Rightarrow>
          (case load_data_body store query (trace g) of
             (Inl e, tr) \<Rightarrow> (Inl e, g\<lparr>trace := tr\<rparr>)
           | (Inr df, tr) \<Rightarrow> (Inr df, g\<lparr>cache := (cache g)(query \<mapsto> df), trace := tr\<rparr>)))"

section \<open>The star schema and the catalog queries\<close>

text \<open>
  The columns of the fact table and of the dimension tables that the queries read. The
  incident id and the keys of the dimension tables identify their rows and are never
  NULL; every other column may be NULL (\<open>None\<close>).
\<close>

record fact_row =
  fact_dwelling_fire_id :: nat
  dwelling_key :: "nat option"
  location_key :: "nat option"
  ignition_key :: "nat option"
  spread_key :: "nat option"
  fatality_casualty_flag :: "int option"
  rescues :: "int option"

record dwelling_row =
  d_dwelling_key :: nat
  d_dwelling_type :: "string option"

record location_row =
  dl_location_key :: nat
  dl_fire_start_location :: "string option"

record ignition_row =
  di_ignition_key :: nat
  di_cause_of_fire :: "string option"

record spread_row =
  ds_spread_key :: nat
  ds_spread_rank :: "int option"

record database =
  fact_dwelling_fire :: "fact_row list"
  dim_dwelling :: "dwelling_row list"
  dim_location :: "location_row list"
  dim_ignition :: "ignition_row list"
  dim_spread :: "spread_row list"

text \<open>A string column in the data frame: NULL becomes \<^verbatim>\<open>None\<close>.\<close>

definition to_pyval :: "string option \<Rightarrow> pyval" where
  "to_pyval v = (case v of None \<Rightarrow> PyNone | Some s \<Rightarrow> PyStr s)"

text \<open>
  The text of the fire-start-locations query (white space collapsed), the key under
  which its frame is stored.
\<close>

definition sql_locations :: string where
  "sql_locations = ''SELECT d.dwelling_type, dl.fire_start_location, COUNT(f.fact_dwelling_fire_id) AS number_of_incidents FROM fact_dwelling_fire f JOIN dim_dwelling d ON f.dwelling_key = d.dwelling_key JOIN dim_location dl ON f.location_key = dl.location_key WHERE dl.fire_start_location IS NOT NULL AND dl.fire_start_location != 'Not known' AND d.dwelling_type IS NOT NULL GROUP BY d.dwelling_type, dl.fire_start_location''"

text \<open>
  What the fire-start-locations query computes. The two inner joins keep the
  combinations whose keys are equal (a NULL key equals nothing); the \<^verbatim>\<open>WHERE\<close>
  clause keeps the rows whose location is neither NULL nor \<^verbatim>\<open>Not known\<close> and whose
  dwelling type is not NULL.
\<close>

definition locations_rows :: "database \<Rightarrow> (fact_row \<times> dwelling_row \<times> location_row) list" where
  "locations_rows db =
     filter (\<lambda>(f, d, dl).
               dl_fire_start_location dl \<noteq> None
               \<and> dl_fire_start_location dl \<noteq> Some ''Not known''
               \<and> d_dwelling_type d \<noteq> None)
       (concat (map (\<lambda>f.
          concat (map (\<lambda>d.
            if dwelling_key f = Some (d_dwelling_key d)
            then concat (map (\<lambda>dl.
                   if location_key f = Some (dl_location_key dl) then [(f, d, dl)] else [])
                   (dim_location db))
            else [])
            (dim_dwelling db)))
          (fact_dwelling_fire db)))"

text \<open>
  \<^verbatim>\<open>GROUP BY d.dwelling_type, dl.fire_start_location\<close> with the count of the rows of
  each group (\<^verbatim>\<open>COUNT\<close> of the id, which is never NULL): one row per pair that occurs,
  here in the order of first occurrence (SQL fixes no order).
\<close>

definition locations_frame :: "database \<Rightarrow> raw_row list" where
  "locations_frame db =
     map (\<lambda>(dt, loc).
            \<lparr>dwelling_type = to_pyval dt, fire_start_location = to_pyval loc,
             number_of_incidents =
               length (filter (\<lambda>(f, d, dl). d_dwelling_type d = dt
                                 \<and> dl_fire_start_location dl = loc) (locations_rows db))\<rparr>)
         (remdups (map (\<lambda>(f, d, dl). (d_dwelling_type d, dl_fire_start_location dl))
                       (locations_rows db)))"

text \<open>The text of the human-cost query (white space collapsed).\<close>

definition sql_human_cost :: string where
  "sql_human_cost = ''SELECT di.cause_of_fire, COUNT(f.fact_dwelling_fire_id) AS number_of_incidents, ROUND(AVG(ds.spread_rank), 2) AS avg_spread_rank, SUM(f.fatality_casualty_flag) AS total_incidents_with_casualties, ROUND(AVG(f.fatality_casualty_flag) * 100, 2) AS pct_chance_of_casualty, ROUND(AVG(f.rescues), 2) AS avg_rescues_per_incident FROM fact_dwelling_fire f JOIN dim_ignition di ON f.ignition_key = di.ignition_key JOIN dim_spread ds ON f.spread_key = ds.spread_key WHERE ds.spread_rank IS NOT NULL AND f.rescues IS NOT NULL AND di.cause_of_fire IS NOT NULL AND di.cause_of_fire != 'Not known' GROUP BY di.cause_of_fire HAVING COUNT(f.fact_dwelling_fire_id) > 100 -- Filter out noise''"

text \<open>
  A row of the frame of the human-cost query. Averages are computed exactly, as
  rationals; \<^verbatim>\<open>SUM\<close> and \<^verbatim>\<open>AVG\<close> skip NULLs and are NULL over no value.
\<close>

record human_cost_row =
  cause_of_fire :: pyval
  hc_number_of_incidents :: nat
  avg_spread_rank :: "rat option"
  total_incidents_with_casualties :: "int option"
  pct_chance_of_casualty :: "rat option"
  avg_rescues_per_incident :: "rat option"

text \<open>\<^verbatim>\<open>SUM\<close> and \<^verbatim>\<open>AVG\<close> of a column, and \<^verbatim>\<open>ROUND(x, 2)\<close>, ties away from zero.\<close>

definition sql_sum :: "int option list \<Rightarrow> int option" where
  "sql_sum vs =
     (case concat (map (\<lambda>v. case v of None \<Rightarrow> [] | Some x \<Rightarrow> [x]) vs) of
        [] \<Rightarrow> None
      | x # xs \<Rightarrow> Some (sum_list (x # xs)))"

definition sql_avg :: "int option list \<Rightarrow> rat option" where
  "sql_avg vs =
     (case concat (map (\<lambda>v. case v of None \<Rightarrow> [] | Some x \<Rightarrow> [x]) vs) of
        [] \<Rightarrow> None
      | x # xs \<Rightarrow> Some (of_int (sum_list (x # xs)) / of_nat (length (x # xs))))"

definition sql_round2 :: "rat \<Rightarrow> rat" where
  "sql_round2 x =
     (if 0 \<le> x then of_int \<lfloor>x * 100 + 1 / 2\<rfloor> / 100
      else - (of_int \<lfloor>- x * 100 + 1 / 2\<rfloor> / 100))"

text \<open>
  The rows of the human-cost query after its joins and its \<^verbatim>\<open>WHERE\<close> clause: the
  spread rank, the rescues and the cause are not NULL and the cause is not
  \<^verbatim>\<open>Not known\<close>.
\<close>

definition human_cost_rows :: "database \<Rightarrow> (fact_row \<times> ignition_row \<times> spread_row) list" where
  "human_cost_rows db =
     filter (\<lambda>(f, di, ds).
               ds_spread_rank ds \<noteq> None
               \<and> rescues f \<noteq> None
               \<and> di_cause_of_fire di \<noteq> None
               \<and> di_cause_of_fire di \<noteq> Some ''Not known'')
       (concat (map (\<lambda>f.
          concat (map (\<lambda>di.
            if ignition_key f = Some (di_ignition_key di)
            then concat (map (\<lambda>ds.
                   if spread_key f = Some (ds_spread_key ds) then [(f, di, ds)] else [])
                   (dim_spread db))
            else [])
            (dim_ignition db)))
          (fact_dwelling_fire db)))"

text \<open>
  What the human-cost query computes: \<^verbatim>\<open>GROUP BY di.cause_of_fire\<close>, then \<^verbatim>\<open>HAVING COUNT(f.fact_dwelling_fire_id) > 100\<close>,
  then the aggregates of each group that is kept.
\<close>

definition human_cost_frame :: "database \<Rightarrow> human_cost_row list" where
  "human_cost_frame db =
     map (\<lambda>c.
            let grp = filter (\<lambda>(f, di, ds). di_cause_of_fire di = c) (human_cost_rows db)
            in \<lparr>cause_of_fire = to_pyval c,
                hc_number_of_incidents = length grp,
                avg_spread_rank =
                  map_option sql_round2 (sql_avg (map (\<lambda>(f, di, ds). ds_spread_rank ds) grp)),
                total_incidents_with_casualties =
                  sql_sum (map (\<lambda>(f, di, ds). fatality_casualty_flag f) grp),
                pct_chance_of_casualty =
                  map_option (\<lambda>a. sql_round2 (a * 100))
                    (sql_avg (map (\<lambda>(f, di, ds). fatality_casualty_flag f) grp)),
                avg_rescues_per_incident =
                  map_option sql_round2 (sql_avg (map (\<lambda>(f, di, ds). rescues f) grp))\<rparr>)
         (filter (\<lambda>c. 100 < length (filter (\<lambda>(f, di, ds). di_cause_of_fire di = c)
                                       (human_cost_rows db)))
            (remdups (map (\<lambda>(f, di, ds). di_cause_of_fire di) (human_cost_rows db))))"

section \<open>\<^verbatim>\<open>process_location_data\<close>\<close>

text \<open>
  The state that \<^verbatim>\<open>process_location_data\<close> works on: the state of
  \<^verbatim>\<open>load_data\<close>, and the memo of its own \<^verbatim>\<open>@st.cache_data\<close> (the function has no
  argument, so the memo holds at most one result).
\<close>

record app_state =
  loader :: "raw_row list gateway"
  location_memo :: "(chart_row list \<times> pivot_table) option"

text \<open>
  \<^verbatim>\<open>process_location_data\<close>: the frame is loaded with \<^verbatim>\<open>load_data(sql_locations)\<close>
  and transformed; an exception of either goes to the caller with nothing stored.
\<close>

definition process_location_data ::
  "raw_row list store \<Rightarrow> app_state \<Rightarrow> (error + chart_row list \<times> pivot_table) \<times> app_state" where
  "process_location_data store s =
     (case location_memo s of
        Some out \<Rightarrow> (Inr out, s)
      | None \<Rightarrow>
          (case load_data store sql_locations (loader s) of
             (Inl e, g) \<Rightarrow> (Inl e, s\<lparr>loader := g\<rparr>)
           | (Inr df_locations_raw, g) \<Rightarrow>
               (case process_location_frame df_locations_raw of
                  Inl e \<Rightarrow> (Inl e, s\<lparr>loader := g\<rparr>)
                | Inr out \<Rightarrow> (Inr out, s\<lparr>loader := g, location_memo := Some out\<rparr>))))"

section \<open>Auxiliary definitions for the proofs\<close>


text \<open>
  The example of the specification, with dwelling types that classify as House and as
  Purpose Built Flats.
\<close>

definition example_rows :: "raw_row list" where
  "example_rows =
     [\<lparr>dwelling_type = PyStr ''House - single occupancy'',
       fire_start_location = PyStr ''Kitchen'', number_of_incidents = 100\<rparr>,
      \<lparr>dwelling_type = PyStr ''House - single occupancy'',
       fire_start_location = PyStr ''Living Room'', number_of_incidents = 50\<rparr>,
      \<lparr>dwelling_type = PyStr ''Purpose Built Flats'',
       fire_start_location = PyStr ''Kitchen'', number_of_incidents = 30\<rparr>,
      \<lparr>dwelling_type = PyStr ''Purpose Built Flats'',
       fire_start_location = PyStr ''Refuse Store'', number_of_incidents = 20\<rparr>]"

text \<open>The same rows with the dwelling-type text \<^verbatim>\<open>House\<close>, as the example is written.\<close>

definition literal_example_rows :: "raw_row list" where
  "literal_example_rows =
     [\<lparr>dwelling_type = PyStr ''House'',
       fire_start_location = PyStr ''Kitchen'', number_of_incidents = 100\<rparr>,
      \<lparr>dwelling_type = PyStr ''House'',
       fire_start_location = PyStr ''Living Room'', number_of_incidents = 50\<rparr>,
      \<lparr>dwelling_type = PyStr ''Purpose Built Flats'',
       fire_start_location = PyStr ''Kitchen'', number_of_incidents = 30\<rparr>,
      \<lparr>dwelling_type = PyStr ''Purpose Built Flats'',
       fire_start_location = PyStr ''Refuse Store'', number_of_incidents = 20\<rparr>]"

text \<open>
  Houses with four location groups whose exact percentages 0.25, 0.25, 0.25 and 99.25
  all lie halfway between two tenths.
\<close>

definition tie_rows :: "raw_row list" where
  "tie_rows =
     [\<lparr>dwelling_type = PyStr ''House - single occupancy'',
       fire_start_location = PyStr ''Kitchen'', number_of_incidents = 1\<rparr>,
      \<lparr>dwelling_type = PyStr ''House - single occupancy'',
       fire_start_location = PyStr ''Living Room'', number_of_incidents = 1\<rparr>,
      \<lparr>dwelling_type = PyStr ''House - single occupancy'',
       fire_start_location = PyStr ''Refuse Store'', number_of_incidents = 1\<rparr>,
      \<lparr>dwelling_type = PyStr ''House - single occupancy'',
       fire_start_location = PyStr ''Garage'', number_of_incidents = 397\<rparr>]"

text \<open>
  The cell of the pivoted frame for a building group and a location group, after
  \<^verbatim>\<open>fillna(0)\<close>: the percentage of the row of the normalized counts with that key,
  and 0 when there is no such row or its percentage is \<open>NaN\<close>.
\<close>

definition filled_cell :: "pct_row list \<Rightarrow> string \<Rightarrow> string \<Rightarrow> pyfloat" where
  "filled_cell df c i =
     (case find (\<lambda>r. gc_location_group r = i \<and> gc_building_group r = c) df of
        None \<Rightarrow> Fin 0
      | Some r \<Rightarrow> (case percentage r of NaN \<Rightarrow> Fin 0 | PosInf \<Rightarrow> PosInf | Fin q \<Rightarrow> Fin q))"


text \<open>
  Counts over a trace: the executions of a query text on the store, the attempts to
  connect, the connections opened and the connections closed.
\<close>

definition executions :: "string \<Rightarrow> event list \<Rightarrow> nat" where
  "executions q tr = length (filter (\<lambda>e. e = Executed q \<or> e = ExecuteFailed q) tr)"




text \<open>A store on which every query returns the empty frame, one on which every query
  fails, and the state of a process that has not called the store yet.\<close>

definition empty_store :: "raw_row list store" where
  "empty_store = \<lparr>can_connect = True, run_query = (\<lambda>q. Some [])\<rparr>"

definition failing_store :: "raw_row list store" where
  "failing_store = \<lparr>can_connect = True, run_query = (\<lambda>q. None)\<rparr>"

definition fresh_gateway :: "raw_row list gateway" where
  "fresh_gateway = \<lparr>cache = Map.empty, trace = []\<rparr>"





section \<open>Classification\<close>

text \<open>
  C1. On every string the building-group classification returns House for exactly
  \<^verbatim>\<open>House - single occupancy\<close>, Purpose Built Flats for a string that starts with
  \<^verbatim>\<open>Purpose Built\<close>, and Other for every other string.
\<close>

theorem group_buildings_str:
  "group_buildings (PyStr s) =
     Inr (if s = ''House - single occupancy'' then ''House''
          else if prefix ''Purpose Built'' s then ''Purpose Built Flats''
          else ''Other'')"
  by (simp add: group_buildings_def)

theorem group_buildings_str_witness:
  "group_buildings (PyStr ''House - single occupancy'') = Inr ''House''
   \<and> group_buildings (PyStr ''Purpose Built Low Rise (1-3) Flats/Maisonettes'') = Inr ''Purpose Built Flats''
   \<and> group_buildings (PyStr ''Bungalow - single occupancy'') = Inr ''Other''
   \<and> group_buildings (PyStr ''House'') = Inr ''Other''"
  using group_buildings_str [of "''House - single occupancy''"]
        group_buildings_str [of "''Purpose Built Low Rise (1-3) Flats/Maisonettes''"]
        group_buildings_str [of "''Bungalow - single occupancy''"]
        group_buildings_str [of "''House''"]
  by simp

text \<open>
  C2. On every string the location-group classification returns Kitchen for
  \<^verbatim>\<open>Kitchen\<close>, Living/Bedroom for the two living and bedroom labels,
  Communal/Escape Routes for the three communal labels, and Other Room/External for
  every other string.
\<close>

theorem group_locations_str:
  "group_locations (PyStr s) =
     (if s = ''Kitchen'' then ''Kitchen''
      else if s \<in> {''Living Room'', ''Bedroom/ Bedsitting Room''} then ''Living/Bedroom''
      else if s \<in> {''Refuse Store'', ''Corridor/ Hall/ Open Plan Area/ Reception Area'',
                    ''Stairs/ Under stairs (enclosed area)''}
        then ''Communal/Escape Routes''
      else ''Other Room/External'')"
  by (simp add: group_locations_def)

theorem group_locations_str_witness:
  "group_locations (PyStr ''Kitchen'') = ''Kitchen''
   \<and> group_locations (PyStr ''Bedroom/ Bedsitting Room'') = ''Living/Bedroom''
   \<and> group_locations (PyStr ''Refuse Store'') = ''Communal/Escape Routes''
   \<and> group_locations (PyStr ''Garage'') = ''Other Room/External''"
  using group_locations_str [of "''Kitchen''"]
        group_locations_str [of "''Bedroom/ Bedsitting Room''"]
        group_locations_str [of "''Refuse Store''"]
        group_locations_str [of "''Garage''"]
  by simp
section \<open>Evaluating the transform on concrete frames\<close>

lemmas frame_defs =
  process_location_frame_def pivot_filled_def normalized_counts_def add_group_columns_def
  df_groups_def df_grouped_counts_def add_percentage_def group_totals_def pivot_def
  fillna_def drop_label_def melt_def true_div_def series_round1_def

lemma round1_values:
  "round1 (200 / 3) = 667 / 10" "round1 (100 / 3) = 333 / 10" "round1 60 = 60"
  "round1 40 = 40" "round1 (1 / 4) = 1 / 5" "round1 (397 / 4) = 496 / 5"
  by code_simp+


section \<open>Rounding and the sums of the percentages\<close>




lemma series_apply_Inr:
  "series_apply f xs = Inr ys \<Longrightarrow> length ys = length xs \<and> (\<forall>x \<in> set xs. \<exists>y. f x = Inr y)"
  by (induction xs arbitrary: ys) (auto split: sum.splits)

lemma series_apply_Inl:
  "series_apply f xs = Inl e \<Longrightarrow> \<exists>x \<in> set xs. f x = Inl e"
  by (induction xs) (auto split: sum.splits)



lemma df_grouped_counts_keys:
  "map (\<lambda>r. (gc_building_group r, gc_location_group r)) (df_grouped_counts df) =
     sort (remdups (map (\<lambda>r. (building_group r, location_group r)) df))"
  by (simp add: df_grouped_counts_def o_def case_prod_unfold)

lemma df_grouped_counts_distinct:
  "distinct (map (\<lambda>r. (gc_building_group r, gc_location_group r)) (df_grouped_counts df))"
  by (simp add: df_grouped_counts_keys)









section \<open>The sum of the percentages of a building group\<close>




section \<open>The example of the specification\<close>

text \<open>
  C4, as the claim states it, fails: a row with the dwelling-type text \<^verbatim>\<open>House\<close>
  is classified Other (only \<^verbatim>\<open>House - single occupancy\<close> is a House) and is
  filtered out, so the frames have no House group at all.
\<close>

theorem literal_example_counterexample:
  "normalized_counts literal_example_rows =
     Inr [\<lparr>gc_building_group = ''Purpose Built Flats'',
           gc_location_group = ''Communal/Escape Routes'',
           gc_number_of_incidents = 20, group_total = Some 50, percentage = Fin 40\<rparr>,
          \<lparr>gc_building_group = ''Purpose Built Flats'', gc_location_group = ''Kitchen'',
           gc_number_of_incidents = 30, group_total = Some 50, percentage = Fin 60\<rparr>]
   \<and> process_location_frame literal_example_rows =
     Inr ([\<lparr>chart_location_group = ''Communal/Escape Routes'',
            chart_building_group = ''Purpose Built Flats'', chart_percentage = Fin 40\<rparr>,
           \<lparr>chart_location_group = ''Kitchen'',
            chart_building_group = ''Purpose Built Flats'', chart_percentage = Fin 60\<rparr>],
          \<lparr>pivot_index = [''Communal/Escape Routes'', ''Kitchen''],
           pivot_columns = [(''Purpose Built Flats'', [Fin 40, Fin 60])]\<rparr>)"
  by (simp add: literal_example_rows_def frame_defs group_buildings_def group_locations_def
      round1_values)

text \<open>
  C4, amended. Given the four rows (h1, Kitchen, 100), (h2, Living Room, 50),
  (f1, Kitchen, 30), (f2, Refuse Store, 20), where the dwelling types h1 and h2 classify
  as House and f1 and f2 as Purpose Built Flats, the group totals are 150 and 50, the
  percentages are 66.7 and 33.3 for the houses and 60.0 and 40.0 for the flats, and the
  two frames returned hold these percentages, with 0 for the two missing combinations.
\<close>

theorem example_transform:
  assumes "group_buildings h1 = Inr ''House''" and "group_buildings h2 = Inr ''House''"
    and "group_buildings f1 = Inr ''Purpose Built Flats''"
    and "group_buildings f2 = Inr ''Purpose Built Flats''"
  shows "normalized_counts
     [\<lparr>dwelling_type = h1, fire_start_location = PyStr ''Kitchen'',
       number_of_incidents = 100\<rparr>,
      \<lparr>dwelling_type = h2, fire_start_location = PyStr ''Living Room'',
       number_of_incidents = 50\<rparr>,
      \<lparr>dwelling_type = f1, fire_start_location = PyStr ''Kitchen'',
       number_of_incidents = 30\<rparr>,
      \<lparr>dwelling_type = f2, fire_start_location = PyStr ''Refuse Store'',
       number_of_incidents = 20\<rparr>] =
     Inr [\<lparr>gc_building_group = ''House'', gc_location_group = ''Kitchen'',
           gc_number_of_incidents = 100, group_total = Some 150,
           percentage = Fin (667 / 10)\<rparr>,
          \<lparr>gc_building_group = ''House'', gc_location_group = ''Living/Bedroom'',
           gc_number_of_incidents = 50, group_total = Some 150,
           percentage = Fin (333 / 10)\<rparr>,
          \<lparr>gc_building_group = ''Purpose Built Flats'',
           gc_location_group = ''Communal/Escape Routes'',
           gc_number_of_incidents = 20, group_total = Some 50, percentage = Fin 40\<rparr>,
          \<lparr>gc_building_group = ''Purpose Built Flats'', gc_location_group = ''Kitchen'',
           gc_number_of_incidents = 30, group_total = Some 50, percentage = Fin 60\<rparr>]
   \<and> process_location_frame
     [\<lparr>dwelling_type = h1, fire_start_location = PyStr ''Kitchen'',
       number_of_incidents = 100\<rparr>,
      \<lparr>dwelling_type = h2, fire_start_location = PyStr ''Living Room'',
       number_of_incidents = 50\<rparr>,
      \<lparr>dwelling_type = f1, fire_start_location = PyStr ''Kitchen'',
       number_of_incidents = 30\<rparr>,
      \<lparr>dwelling_type = f2, fire_start_location = PyStr ''Refuse Store'',
       number_of_incidents = 20\<rparr>] =
     Inr ([\<lparr>chart_location_group = ''Communal/Escape Routes'',
            chart_building_group = ''House'', chart_percentage = Fin 0\<rparr>,
           \<lparr>chart_location_group = ''Kitchen'',
            chart_building_group = ''House'', chart_percentage = Fin (667 / 10)\<rparr>,
           \<lparr>chart_location_group = ''Living/Bedroom'',
            chart_building_group = ''House'', chart_percentage = Fin (333 / 10)\<rparr>,
           \<lparr>chart_location_group = ''Communal/Escape Routes'',
            chart_building_group = ''Purpose Built Flats'', chart_percentage = Fin 40\<rparr>,
           \<lparr>chart_location_group = ''Kitchen'',
            chart_building_group = ''Purpose Built Flats'', chart_percentage = Fin 60\<rparr>,
           \<lparr>chart_location_group = ''Living/Bedroom'',
            chart_building_group = ''Purpose Built Flats'', chart_percentage = Fin 0\<rparr>],
          \<lparr>pivot_index = [''Communal/Escape Routes'', ''Kitchen'', ''Living/Bedroom''],
           pivot_columns =
             [(''House'', [Fin 0, Fin (667 / 10), Fin (333 / 10)]),
              (''Purpose Built Flats'', [Fin 40, Fin 60, Fin 0])]\<rparr>)"
  using assms by (simp add: frame_defs group_locations_def round1_values)

theorem example_transform_witness:
  "group_buildings (PyStr ''House - single occupancy'') = Inr ''House''
   \<and> group_buildings (PyStr ''Purpose Built Flats'') = Inr ''Purpose Built Flats''
   \<and> process_location_frame example_rows =
     Inr ([\<lparr>chart_location_group = ''Communal/Escape Routes'',
            chart_building_group = ''House'', chart_percentage = Fin 0\<rparr>,
           \<lparr>chart_location_group = ''Kitchen'',
            chart_building_group = ''House'', chart_percentage = Fin (667 / 10)\<rparr>,
           \<lparr>chart_location_group = ''Living/Bedroom'',
            chart_building_group = ''House'', chart_percentage = Fin (333 / 10)\<rparr>,
           \<lparr>chart_location_group = ''Communal/Escape Routes'',
            chart_building_group = ''Purpose Built Flats'', chart_percentage = Fin 40\<rparr>,
           \<lparr>chart_location_group = ''Kitchen'',
            chart_building_group = ''Purpose Built Flats'', chart_percentage = Fin 60\<rparr>,
           \<lparr>chart_location_group = ''Living/Bedroom'',
            chart_building_group = ''Purpose Built Flats'', chart_percentage = Fin 0\<rparr>],
          \<lparr>pivot_index = [''Communal/Escape Routes'', ''Kitchen'', ''Living/Bedroom''],
           pivot_columns =
             [(''House'', [Fin 0, Fin (667 / 10), Fin (333 / 10)]),
              (''Purpose Built Flats'', [Fin 40, Fin 60, Fin 0])]\<rparr>)"
proof -
  have h: "group_buildings (PyStr ''House - single occupancy'') = Inr ''House''"
    by (simp add: group_buildings_def)
  have f: "group_buildings (PyStr ''Purpose Built Flats'') = Inr ''Purpose Built Flats''"
    by (simp add: group_buildings_def)
  show ?thesis
    using h f example_transform [OF h h f f]
    unfolding example_rows_def by (intro conjI) (elim conjE, assumption)+
qed

section \<open>The empty frame\<close>

text \<open>
  C6. On the empty frame the transform raises nothing and returns an empty long-form
  frame and an empty pivoted frame.
\<close>

theorem empty_frame:
  "process_location_frame [] = Inr ([], \<lparr>pivot_index = [], pivot_columns = []\<rparr>)"
  by (simp add: frame_defs)

section \<open>The pivoted and the long-form frame\<close>

lemma add_percentage_keys:
  "map (\<lambda>r. (gc_location_group r, gc_building_group r)) (add_percentage gc) =
     map (\<lambda>r. (gc_location_group r, gc_building_group r)) gc"
  by (simp add: add_percentage_def Let_def o_def)

lemma distinct_swap:
  "distinct (map (\<lambda>r. (f r, g r)) xs) \<Longrightarrow> distinct (map (\<lambda>r. (g r, f r)) xs)"
  by (simp add: distinct_map inj_on_def)

lemma normalized_counts_distinct:
  assumes "normalized_counts raw = Inr df"
  shows "distinct (map (\<lambda>r. (gc_location_group r, gc_building_group r)) df)"
proof -
  from assms obtain cls where df: "df = add_percentage (df_grouped_counts (df_groups cls))"
    by (auto simp: normalized_counts_def split: sum.splits)
  show ?thesis
    unfolding df add_percentage_keys
    by (rule distinct_swap) (rule df_grouped_counts_distinct)
qed

lemma drop_column_pairs:
  "map snd (filter (\<lambda>(i, x). i \<noteq> l) (map (\<lambda>i. (i, g i)) idx)) =
     map g (filter (\<lambda>i. i \<noteq> l) idx)"
  by (induction idx) auto

lemma map2_map_self: "map2 f xs (map g xs) = map (\<lambda>i. f i (g i)) xs"
  by (induction xs) auto

lemma zip_map_self: "zip xs (map g xs) = map (\<lambda>i. (i, g i)) xs"
  by (induction xs) auto

lemma pivot_filled_explicit:
  assumes "normalized_counts raw = Inr df"
  shows "pivot_filled raw =
     Inr \<lparr>pivot_index = sort (remdups (map gc_location_group df)),
          pivot_columns = map (\<lambda>c. (c, map (filled_cell df c) (sort (remdups (map gc_location_group df)))))
                             (sort (remdups (map gc_building_group df)))\<rparr>"
proof -
  have "(case (case find P df of None \<Rightarrow> NaN | Some r \<Rightarrow> percentage r) of
           NaN \<Rightarrow> Fin 0 | x \<Rightarrow> x) =
        (case find P df of None \<Rightarrow> Fin 0
         | Some r \<Rightarrow> (case percentage r of NaN \<Rightarrow> Fin 0 | PosInf \<Rightarrow> PosInf | Fin q \<Rightarrow> Fin q))" for P
    by (simp split: option.splits pyfloat.splits)
  then show ?thesis
    using normalized_counts_distinct [OF assms] assms
    by (auto simp: pivot_filled_def pivot_def fillna_def Let_def o_def filled_cell_def
        split: option.splits pyfloat.splits)
qed

lemma process_location_frame_explicit:
  assumes "normalized_counts raw = Inr df"
  shows "process_location_frame raw =
     Inr (concat (map (\<lambda>c. map (\<lambda>i. \<lparr>chart_location_group = i, chart_building_group = c,
                                     chart_percentage = filled_cell df c i\<rparr>)
                         (filter (\<lambda>i. i \<noteq> ''Other Room/External'')
                            (sort (remdups (map gc_location_group df)))))
                  (sort (remdups (map gc_building_group df)))),
          \<lparr>pivot_index = filter (\<lambda>i. i \<noteq> ''Other Room/External'')
                            (sort (remdups (map gc_location_group df))),
           pivot_columns = map (\<lambda>c. (c, map (filled_cell df c)
                                (filter (\<lambda>i. i \<noteq> ''Other Room/External'')
                                   (sort (remdups (map gc_location_group df))))))
                             (sort (remdups (map gc_building_group df)))\<rparr>)"
  by (simp add: process_location_frame_def pivot_filled_explicit [OF assms] drop_label_def
      melt_def Let_def o_def drop_column_pairs zip_map_self map2_map_self)

lemma normalized_counts_Inl:
  "normalized_counts raw = Inl e \<Longrightarrow> process_location_frame raw = Inl e"
  by (simp add: process_location_frame_def pivot_filled_def)

lemma process_location_frame_Inr:
  assumes "process_location_frame raw = Inr out"
  obtains df where "normalized_counts raw = Inr df"
  using assms by (cases "normalized_counts raw") (auto simp: normalized_counts_Inl)

lemma keys_concat_product:
  "map (\<lambda>r. (chart_building_group r, chart_location_group r))
     (concat (map (\<lambda>c. map (\<lambda>i. \<lparr>chart_location_group = i, chart_building_group = c,
                                     chart_percentage = g c i\<rparr>) idx) cols)) =
   List.product cols idx"
  by (induction cols) (simp_all add: o_def)

lemma find_distinct_key:
  assumes "distinct (map k xs)" and "r \<in> set xs"
  shows "find (\<lambda>x. k x = k r) xs = Some r"
  using assms
proof (induction xs)
  case Nil
  then show ?case by simp
next
  case (Cons a xs)
  then show ?case by (cases "a = r") force+
qed

lemma tie_frames:
  "process_location_frame tie_rows =
     Inr ([\<lparr>chart_location_group = ''Communal/Escape Routes'',
            chart_building_group = ''House'', chart_percentage = Fin (1 / 5)\<rparr>,
           \<lparr>chart_location_group = ''Kitchen'',
            chart_building_group = ''House'', chart_percentage = Fin (1 / 5)\<rparr>,
           \<lparr>chart_location_group = ''Living/Bedroom'',
            chart_building_group = ''House'', chart_percentage = Fin (1 / 5)\<rparr>],
          \<lparr>pivot_index = [''Communal/Escape Routes'', ''Kitchen'', ''Living/Bedroom''],
           pivot_columns = [(''House'', [Fin (1 / 5), Fin (1 / 5), Fin (1 / 5)])]\<rparr>)"
  by (simp add: tie_rows_def frame_defs group_buildings_def group_locations_def
      round1_values)

lemma filled_cell_missing:
  "\<forall>r \<in> set df. \<not> (gc_location_group r = i \<and> gc_building_group r = c) \<Longrightarrow>
     filled_cell df c i = Fin 0"
  by (simp add: filled_cell_def find_None_iff [THEN iffD2])

lemma filled_cell_present:
  assumes "distinct (map (\<lambda>r. (gc_location_group r, gc_building_group r)) df)"
    and "r \<in> set df"
  shows "filled_cell df (gc_building_group r) (gc_location_group r) =
           (case percentage r of NaN \<Rightarrow> Fin 0 | PosInf \<Rightarrow> PosInf | Fin q \<Rightarrow> Fin q)"
proof -
  have "find (\<lambda>x. (gc_location_group x, gc_building_group x) =
                  (gc_location_group r, gc_building_group r)) df = Some r"
    using assms by (rule find_distinct_key)
  then show ?thesis by (simp add: filled_cell_def)
qed

text \<open>
  C5. Whenever the transform returns, the pivoted frame has no row indexed
  Other Room/External: it is the filled pivot with that row dropped, and is the filled
  pivot itself when the row is absent. The long-form frame has exactly (number of index
  labels) times (number of columns) rows, one for every pair of a building-group column
  and a remaining location group, in column order; a pair with no row in the normalized
  counts has percentage 0, and a pair with a row has that row's percentage (0 for
  \<open>NaN\<close>).
\<close>

theorem drop_and_melt:
  assumes "process_location_frame df_locations_raw = Inr (chart, pv)"
  shows "''Other Room/External'' \<notin> set (pivot_index pv)
    \<and> (\<exists>pv0. pivot_filled df_locations_raw = Inr pv0
           \<and> pv = drop_label ''Other Room/External'' pv0
           \<and> (''Other Room/External'' \<notin> set (pivot_index pv0) \<longrightarrow> pv = pv0))
    \<and> length chart = length (pivot_index pv) * length (pivot_columns pv)
    \<and> map (\<lambda>r. (chart_building_group r, chart_location_group r)) chart =
        List.product (map fst (pivot_columns pv)) (pivot_index pv)
    \<and> distinct (map (\<lambda>r. (chart_building_group r, chart_location_group r)) chart)
    \<and> (\<exists>df. normalized_counts df_locations_raw = Inr df
          \<and> (\<forall>c \<in> set chart.
                (\<forall>r \<in> set df. \<not> (gc_location_group r = chart_location_group c
                                    \<and> gc_building_group r = chart_building_group c))
                \<longrightarrow> chart_percentage c = Fin 0)
          \<and> (\<forall>c \<in> set chart. \<forall>r \<in> set df.
                gc_location_group r = chart_location_group c
                \<and> gc_building_group r = chart_building_group c
                \<longrightarrow> chart_percentage c =
                     (case percentage r of NaN \<Rightarrow> Fin 0 | PosInf \<Rightarrow> PosInf | Fin q \<Rightarrow> Fin q)))"
proof -
  from assms obtain df where df: "normalized_counts df_locations_raw = Inr df"
    by (rule process_location_frame_Inr)
  define idx where "idx = sort (remdups (map gc_location_group df))"
  define cols where "cols = sort (remdups (map gc_building_group df))"
  define idx' where "idx' = filter (\<lambda>i. i \<noteq> ''Other Room/External'') idx"
  note d = normalized_counts_distinct [OF df]
  have pv0: "pivot_filled df_locations_raw =
    Inr \<lparr>pivot_index = idx, pivot_columns = map (\<lambda>c. (c, map (filled_cell df c) idx)) cols\<rparr>"
    using pivot_filled_explicit [OF df] by (simp add: idx_def cols_def)
  have "process_location_frame df_locations_raw =
     Inr (concat (map (\<lambda>c. map (\<lambda>i. \<lparr>chart_location_group = i, chart_building_group = c,
                                     chart_percentage = filled_cell df c i\<rparr>) idx') cols),
          \<lparr>pivot_index = idx',
           pivot_columns = map (\<lambda>c. (c, map (filled_cell df c) idx')) cols\<rparr>)"
    using process_location_frame_explicit [OF df] by (simp add: idx_def cols_def idx'_def)
  with assms have chart: "chart = concat (map (\<lambda>c. map (\<lambda>i. \<lparr>chart_location_group = i,
        chart_building_group = c, chart_percentage = filled_cell df c i\<rparr>) idx') cols)"
    and pv: "pv = \<lparr>pivot_index = idx',
           pivot_columns = map (\<lambda>c. (c, map (filled_cell df c) idx')) cols\<rparr>"
    by simp_all
  have keys: "map (\<lambda>r. (chart_building_group r, chart_location_group r)) chart =
        List.product cols idx'"
    unfolding chart by (rule keys_concat_product)
  have cols_pv: "map fst (pivot_columns pv) = cols" by (simp add: pv o_def)
  have 1: "''Other Room/External'' \<notin> set (pivot_index pv)" by (simp add: pv idx'_def)
  have 2: "\<exists>pv0. pivot_filled df_locations_raw = Inr pv0
           \<and> pv = drop_label ''Other Room/External'' pv0
           \<and> (''Other Room/External'' \<notin> set (pivot_index pv0) \<longrightarrow> pv = pv0)"
  proof (intro exI conjI impI)
    show "pivot_filled df_locations_raw =
      Inr \<lparr>pivot_index = idx, pivot_columns = map (\<lambda>c. (c, map (filled_cell df c) idx)) cols\<rparr>"
      by (rule pv0)
    show "pv = drop_label ''Other Room/External''
            \<lparr>pivot_index = idx, pivot_columns = map (\<lambda>c. (c, map (filled_cell df c) idx)) cols\<rparr>"
      by (simp add: pv drop_label_def idx'_def o_def zip_map_self drop_column_pairs)
    assume "''Other Room/External'' \<notin>
      set (pivot_index \<lparr>pivot_index = idx,
             pivot_columns = map (\<lambda>c. (c, map (filled_cell df c) idx)) cols\<rparr>)"
    then have "idx' = idx" by (auto simp: idx'_def filter_id_conv)
    then show "pv = \<lparr>pivot_index = idx,
             pivot_columns = map (\<lambda>c. (c, map (filled_cell df c) idx)) cols\<rparr>"
      by (simp add: pv)
  qed
  have "length chart = length (List.product cols idx')"
    unfolding keys [symmetric] by simp
  then have 3: "length chart = length (pivot_index pv) * length (pivot_columns pv)"
    by (simp add: pv)
  have 4: "map (\<lambda>r. (chart_building_group r, chart_location_group r)) chart =
        List.product (map fst (pivot_columns pv)) (pivot_index pv)"
    unfolding cols_pv keys by (simp add: pv)
  have 5: "distinct (map (\<lambda>r. (chart_building_group r, chart_location_group r)) chart)"
    unfolding keys by (simp add: distinct_product cols_def idx'_def idx_def)
  have cell: "chart_percentage c = filled_cell df (chart_building_group c) (chart_location_group c)"
    if "c \<in> set chart" for c
    using that unfolding chart by auto
  have 6: "\<forall>c \<in> set chart.
                (\<forall>r \<in> set df. \<not> (gc_location_group r = chart_location_group c
                                    \<and> gc_building_group r = chart_building_group c))
                \<longrightarrow> chart_percentage c = Fin 0"
    using cell filled_cell_missing by simp
  have 7: "\<forall>c \<in> set chart. \<forall>r \<in> set df.
                gc_location_group r = chart_location_group c
                \<and> gc_building_group r = chart_building_group c
                \<longrightarrow> chart_percentage c =
                     (case percentage r of NaN \<Rightarrow> Fin 0 | PosInf \<Rightarrow> PosInf | Fin q \<Rightarrow> Fin q)"
    using cell filled_cell_present [OF d] by metis
  from df 6 7 have 8: "\<exists>df. normalized_counts df_locations_raw = Inr df
          \<and> (\<forall>c \<in> set chart.
                (\<forall>r \<in> set df. \<not> (gc_location_group r = chart_location_group c
                                    \<and> gc_building_group r = chart_building_group c))
                \<longrightarrow> chart_percentage c = Fin 0)
          \<and> (\<forall>c \<in> set chart. \<forall>r \<in> set df.
                gc_location_group r = chart_location_group c
                \<and> gc_building_group r = chart_building_group c
                \<longrightarrow> chart_percentage c =
                     (case percentage r of NaN \<Rightarrow> Fin 0 | PosInf \<Rightarrow> PosInf | Fin q \<Rightarrow> Fin q))"
    by blast
  from 1 2 3 4 5 8 show ?thesis by (intro conjI)
qed

theorem drop_and_melt_witness:
  "\<exists>chart pv. process_location_frame tie_rows = Inr (chart, pv)
     \<and> pivot_index pv = [''Communal/Escape Routes'', ''Kitchen'', ''Living/Bedroom'']
     \<and> ''Other Room/External'' \<notin> set (pivot_index pv)
     \<and> length chart = 3
     \<and> length chart = length (pivot_index pv) * length (pivot_columns pv)"
  using tie_frames drop_and_melt [OF tie_frames] by simp


section \<open>Cells that are not strings\<close>

lemma group_buildings_error: "group_buildings x = Inl e \<Longrightarrow> x = PyNone \<and> e = AttributeError"
  by (cases x) (auto simp: group_buildings_def split: if_splits)

lemma add_group_columns_Inl:
  assumes "add_group_columns rows = Inl e"
  shows "e = AttributeError \<and> (\<exists>r \<in> set rows. dwelling_type r = PyNone)"
proof -
  from assms have "series_apply group_buildings (map dwelling_type rows) = Inl e"
    by (simp add: add_group_columns_def Let_def split: sum.splits)
  then obtain x where "x \<in> set (map dwelling_type rows)" "group_buildings x = Inl e"
    by (blast dest: series_apply_Inl)
  then show ?thesis using group_buildings_error by fastforce
qed

lemma add_group_columns_Inr:
  assumes "add_group_columns rows = Inr df" and "r \<in> set rows"
  shows "dwelling_type r \<noteq> PyNone"
proof
  assume n: "dwelling_type r = PyNone"
  from assms(1) obtain bgs where "series_apply group_buildings (map dwelling_type rows) = Inr bgs"
    by (auto simp: add_group_columns_def split: sum.splits)
  then have "\<forall>x \<in> set (map dwelling_type rows). \<exists>y. group_buildings x = Inr y"
    by (blast dest: series_apply_Inr)
  with assms(2) have "\<exists>y. group_buildings (dwelling_type r) = Inr y" by simp
  with n show False by (simp add: group_buildings_def)
qed

lemma process_location_frame_cases:
  "(\<forall>r \<in> set rows. dwelling_type r \<noteq> PyNone) \<and> (\<exists>out. process_location_frame rows = Inr out)
   \<or> (\<exists>r \<in> set rows. dwelling_type r = PyNone) \<and> process_location_frame rows = Inl AttributeError"
proof (cases "add_group_columns rows")
  case (Inl e)
  then have "normalized_counts rows = Inl e" by (simp add: normalized_counts_def)
  then have "process_location_frame rows = Inl e" by (rule normalized_counts_Inl)
  with add_group_columns_Inl [OF Inl] show ?thesis by simp
next
  case (Inr df)
  then have "normalized_counts rows = Inr (add_percentage (df_grouped_counts (df_groups df)))"
    by (simp add: normalized_counts_def)
  from process_location_frame_explicit [OF this] add_group_columns_Inr [OF Inr]
  show ?thesis by blast
qed


lemma locations_rows_strings:
  "(f, d, dl) \<in> set (locations_rows db) \<Longrightarrow>
     (\<exists>t. d_dwelling_type d = Some t) \<and> (\<exists>l. dl_fire_start_location dl = Some l)"
  by (auto simp: locations_rows_def)

lemma locations_frame_strings:
  assumes "r \<in> set (locations_frame db)"
  shows "(\<exists>t. dwelling_type r = PyStr t) \<and> (\<exists>l. fire_start_location r = PyStr l)"
  using assms
  by (auto simp: locations_frame_def to_pyval_def dest!: locations_rows_strings)





section \<open>The cached loader\<close>

lemma load_data_hit: "cache g q = Some df \<Longrightarrow> load_data store q g = (Inr df, g)"
  by (simp add: load_data_def)

lemma load_data_Inr:
  assumes "load_data store q g = (Inr df, g1)"
  shows "cache g1 q = Some df"
    and "cache g q = Some df \<and> g1 = g
         \<or> cache g q = None \<and> trace g1 = trace g @ [Connected, Executed q, Closed]"
  using assms
  by (auto simp: load_data_def load_data_body_def split: option.splits if_splits)

text \<open>
  C7, as the claim states it, fails for a query that cannot be executed: neither call
  returns a frame, nothing is stored, and the store is executed by both calls.
\<close>

theorem load_data_twice_counterexample:
  "fst (load_data failing_store ''SELECT 1 FROM no_such_table'' fresh_gateway) =
     Inl DataUnavailable
   \<and> fst (load_data failing_store ''SELECT 1 FROM no_such_table''
           (snd (load_data failing_store ''SELECT 1 FROM no_such_table'' fresh_gateway))) =
     Inl DataUnavailable
   \<and> executions ''SELECT 1 FROM no_such_table''
        (trace (snd (load_data failing_store ''SELECT 1 FROM no_such_table''
           (snd (load_data failing_store ''SELECT 1 FROM no_such_table'' fresh_gateway))))) = 2"
  by (simp add: load_data_def load_data_body_def failing_store_def fresh_gateway_def
      executions_def)

text \<open>
  C7, amended. For every query text and every state of the memo, when a call of
  \<^verbatim>\<open>load_data\<close> returns a frame, a second call with the same text against the same
  snapshot returns the same frame, leaves the state unchanged, and the two calls
  together execute the query on the store at most once.
\<close>

theorem load_data_twice:
  assumes "load_data store q g = (Inr df, g1)"
  shows "load_data store q g1 = (Inr df, g1)
    \<and> executions q (trace g1) \<le> executions q (trace g) + 1
    \<and> executions q (trace (snd (load_data store q g1))) = executions q (trace g1)"
proof -
  from load_data_Inr(1) [OF assms] have 2: "load_data store q g1 = (Inr df, g1)"
    by (rule load_data_hit)
  from load_data_Inr(2) [OF assms]
  have "executions q (trace g1) \<le> executions q (trace g) + 1"
    by (auto simp: executions_def)
  with 2 show ?thesis by simp
qed

theorem load_data_twice_witness:
  "load_data empty_store ''SELECT 1'' fresh_gateway =
     (Inr [], \<lparr>cache = [''SELECT 1'' \<mapsto> []], trace = [Connected, Executed ''SELECT 1'', Closed]\<rparr>)
   \<and> load_data empty_store ''SELECT 1''
        \<lparr>cache = [''SELECT 1'' \<mapsto> []], trace = [Connected, Executed ''SELECT 1'', Closed]\<rparr> =
     (Inr [], \<lparr>cache = [''SELECT 1'' \<mapsto> []], trace = [Connected, Executed ''SELECT 1'', Closed]\<rparr>)
   \<and> executions ''SELECT 1'' [Connected, Executed ''SELECT 1'', Closed] = 1"
proof -
  have 1: "load_data empty_store ''SELECT 1'' fresh_gateway =
     (Inr [], \<lparr>cache = [''SELECT 1'' \<mapsto> []], trace = [Connected, Executed ''SELECT 1'', Closed]\<rparr>)"
    by (simp add: load_data_def load_data_body_def empty_store_def fresh_gateway_def)
  have 3: "executions ''SELECT 1'' [Connected, Executed ''SELECT 1'', Closed] = 1"
    by (simp add: executions_def)
  from load_data_twice [OF 1] have 2: "load_data empty_store ''SELECT 1''
        \<lparr>cache = [''SELECT 1'' \<mapsto> []], trace = [Connected, Executed ''SELECT 1'', Closed]\<rparr> =
     (Inr [], \<lparr>cache = [''SELECT 1'' \<mapsto> []], trace = [Connected, Executed ''SELECT 1'', Closed]\<rparr>)"
    by (elim conjE)
  from 1 2 3 show ?thesis by (intro conjI)
qed



section \<open>The human-cost query\<close>







lemma in_map_filterD:
  "r \<in> set (map g (filter P ks)) \<Longrightarrow> \<exists>k. k \<in> set ks \<and> P k \<and> r = g k"
  by auto

lemma human_cost_row:
  assumes "r \<in> set (human_cost_frame db)"
  shows "\<exists>k. k \<in> set (map (\<lambda>(f, di, ds). di_cause_of_fire di) (human_cost_rows db))
    \<and> 100 < length (filter (\<lambda>(f, di, ds). di_cause_of_fire di = k) (human_cost_rows db))
    \<and> cause_of_fire r = to_pyval k
    \<and> hc_number_of_incidents r =
          length (filter (\<lambda>(f, di, ds). di_cause_of_fire di = k) (human_cost_rows db))"
proof -
  from in_map_filterD [OF assms [unfolded human_cost_frame_def]]
  obtain k where k: "k \<in> set (remdups (map (\<lambda>(f, di, ds). di_cause_of_fire di) (human_cost_rows db)))"
    and n: "100 < length (filter (\<lambda>(f, di, ds). di_cause_of_fire di = k) (human_cost_rows db))"
    and r: "r = (let grp = filter (\<lambda>(f, di, ds). di_cause_of_fire di = k) (human_cost_rows db)
            in \<lparr>cause_of_fire = to_pyval k,
                hc_number_of_incidents = length grp,
                avg_spread_rank =
                  map_option sql_round2 (sql_avg (map (\<lambda>(f, di, ds). ds_spread_rank ds) grp)),
                total_incidents_with_casualties =
                  sql_sum (map (\<lambda>(f, di, ds). fatality_casualty_flag f) grp),
                pct_chance_of_casualty =
                  map_option (\<lambda>a. sql_round2 (a * 100))
                    (sql_avg (map (\<lambda>(f, di, ds). fatality_casualty_flag f) grp)),
                avg_rescues_per_incident =
                  map_option sql_round2 (sql_avg (map (\<lambda>(f, di, ds). rescues f) grp))\<rparr>)"
    by blast
  from k have "k \<in> set (map (\<lambda>(f, di, ds). di_cause_of_fire di) (human_cost_rows db))"
    by simp
  moreover have "cause_of_fire r = to_pyval k" by (simp add: r Let_def)
  moreover have "hc_number_of_incidents r =
          length (filter (\<lambda>(f, di, ds). di_cause_of_fire di = k) (human_cost_rows db))"
    by (simp add: r Let_def)
  ultimately show ?thesis using n by blast
qed



section \<open>The transform on the frame of the store\<close>

lemma process_location_data_loaded:
  assumes "location_memo s = None" and "cache (loader s) sql_locations = None"
    and "can_connect store" and "run_query store sql_locations = Some df"
  shows "fst (process_location_data store s) = process_location_frame df"
  using assms
  by (simp add: process_location_data_def load_data_def load_data_body_def
      split: sum.splits)

lemma process_location_data_empty:
  assumes "location_memo s = None" and "cache (loader s) sql_locations = None"
    and "can_connect store" and "run_query store sql_locations = Some []"
  shows "fst (process_location_data store s) =
           Inr ([], \<lparr>pivot_index = [], pivot_columns = []\<rparr>)"
  using process_location_data_loaded [OF assms] by (simp add: frame_defs)

lemma process_location_data_unavailable:
  assumes "location_memo s = None" and "cache (loader s) sql_locations = None"
    and "\<not> can_connect store \<or> run_query store sql_locations = None"
  shows "fst (process_location_data store s) = Inl DataUnavailable"
  using assms
  by (auto simp: process_location_data_def load_data_def load_data_body_def
      split: option.splits)

lemma process_location_data_query:
  assumes "location_memo s = None" and "cache (loader s) sql_locations = None"
    and "can_connect store" and "run_query store sql_locations = Some (locations_frame db)"
  shows "\<exists>out. fst (process_location_data store s) = Inr out"
proof -
  have "\<forall>r \<in> set (locations_frame db). dwelling_type r \<noteq> PyNone"
    using locations_frame_strings by fastforce
  then have "\<exists>out. process_location_frame (locations_frame db) = Inr out"
    using process_location_frame_cases [of "locations_frame db"] by auto
  then show ?thesis using process_location_data_loaded [OF assms] by simp
qed

end
